theory Spec2Isabelle
  imports Main
begin

section \<open>The kernel launcher of fs-kernels (spawnteract.ts)\<close>

text \<open>
  A shallow embedding of \<^verbatim>\<open>packages/fs-kernels/src/spawnteract.ts\<close>. Every function of
  the module is a HOL function of the same name. The module works on the file system, the
  process table, the console and a few collaborators that live outside the module
  (portfinder, uuid, mkdirp, execa, jupyter-paths, kernelspecs, enchannel-zmq-backend);
  all of that is one explicit \<open>world\<close> value that each function takes and returns.
  A JavaScript exception or a rejected promise is \<open>Inl\<close> of a \<open>js_error\<close>, a normal
  return or a resolved promise is \<open>Inr\<close>.
\<close>

subsection \<open>Values\<close>

type_synonym path = string

type_synonym environ = "string \<rightharpoonup> string"

datatype errno = ENOENT | EACCES | EEXIST | EISDIR

text \<open>
  The exceptions the module meets: \<^verbatim>\<open>new Error(message)\<close>, the \<^verbatim>\<open>TypeError\<close> of
  the language (a property read on \<^verbatim>\<open>undefined\<close>, a spawn without a command), and the
  system errors of the \<^verbatim>\<open>fs\<close> module, told apart by their code.
\<close>

datatype js_error = Error string | TypeError | SystemError errno

text \<open>
  \<^verbatim>\<open>{ version: number } & JupyterConnectionInfo\<close>. A port field holds what
  \<^verbatim>\<open>ports[i]\<close> gives: \<open>None\<close> is \<^verbatim>\<open>undefined\<close>, the value of an index out of range.
\<close>

record connection_info =
  version :: nat
  key :: string
  signature_scheme :: string
  transport :: string
  ip :: string
  hb_port :: "nat option"
  control_port :: "nat option"
  shell_port :: "nat option"
  stdin_port :: "nat option"
  iopub_port :: "nat option"

text \<open>The options of \<^verbatim>\<open>portfinder.getPorts\<close>: \<^verbatim>\<open>{ port: number; host: string }\<close>.\<close>

record pf_options =
  port :: nat
  host :: string

text \<open>
  \<^verbatim>\<open>KernelSpec\<close>: the module reads \<^verbatim>\<open>argv\<close> and \<^verbatim>\<open>env\<close> only. A
  \<^verbatim>\<open>KernelResourceByName\<close> maps a kernel name to a resource that carries the spec.
\<close>

record kernel_spec =
  argv :: "string list"
  env :: environ
  display_name :: string

record kernel_resource =
  name :: string
  spec :: kernel_spec

type_synonym kernel_resource_by_name = "string \<rightharpoonup> kernel_resource"

text \<open>
  A key of an options object: the object does not have it (\<open>Absent\<close>), has it with the
  value \<^verbatim>\<open>undefined\<close> (\<open>Undef\<close>), or has it with a value (\<open>Present\<close>).
\<close>

datatype 'a js_key = Absent | Undef | Present 'a

text \<open>
  The spawn options the module looks at; \<open>env_option\<close> is the key \<^verbatim>\<open>env\<close>.
  \<open>passthrough\<close> holds every other key, handed to execa unread.
\<close>

record spawn_options =
  cleanupConnectionFile :: "bool js_key"
  stdio :: "string js_key"
  env_option :: "environ js_key"
  passthrough :: "string \<rightharpoonup> string"

text \<open>
  The observer registered on a child process: the closure
  \<^verbatim>\<open>(...) => cleanup(connectionFile)\<close>, which holds the path.
\<close>

datatype handler = Cleanup path

text \<open>The two events of a child process that the module observes.\<close>

datatype child_event = ExitEvent | ErrorEvent

record child_process =
  exec_file :: "string"
  args :: "string list"
  options :: spawn_options
  on_exit :: "handler list"
  on_error :: "handler list"

datatype Channels = Channels connection_info

record launched_kernel =
  channels :: Channels
  config :: connection_info
  connectionFile :: path
  kernelSpec :: kernel_spec
  spawn :: nat

text \<open>What \<^verbatim>\<open>fs.writeFile\<close> is given as data: a string, or (as here) an object.\<close>

datatype js_data = JString string | JObject connection_info

subsection \<open>The world\<close>

text \<open>
  \<^item> \<open>files\<close>: the regular files and their contents; \<open>dirs\<close>: the directories;
    \<open>denied\<close>: the paths that the operating system refuses to create, write or delete.
  \<^item> \<open>process_env\<close> is \<^verbatim>\<open>process.env\<close>, \<open>runtimeDir\<close> what \<^verbatim>\<open>jp.runtimeDir()\<close>
    resolves to, \<open>findAll\<close> the outcome of \<^verbatim>\<open>findAll()\<close> of kernelspecs.
  \<^item> \<open>getPorts\<close> is portfinder: the outcome of \<^verbatim>\<open>getPorts(count, options)\<close>;
    \<open>probes\<close> records each call made to it, with its arguments.
  \<^item> \<open>uuid_gen\<close> and \<open>uuid_ctr\<close>: the \<open>n\<close>-th call of \<^verbatim>\<open>uuid.v4()\<close> returns
    \<open>uuid_gen n\<close>.
  \<^item> \<open>createMainChannel\<close> is enchannel-zmq-backend: the outcome of opening the channels.
  \<^item> \<open>console\<close>: the values given to \<^verbatim>\<open>console.log\<close>, in order.
  \<^item> \<open>uncaught\<close>: the exceptions thrown inside a callback that no enclosing
    \<^verbatim>\<open>try\<close> and no promise receives (Node reports them as uncaught exceptions).
  \<^item> \<open>procs\<close>: the child processes spawned so far; a child's index is its handle.
  \<^item> \<open>mkdirp_first\<close>: the scheduling of the two file system requests that
    \<^verbatim>\<open>writeConnectionFile\<close> has in flight at once, the mkdirp it does not await and the
    write of the file: \<open>True\<close> when mkdirp has finished by the time the write runs,
    \<open>False\<close> when the write runs first.
  \<^item> \<open>early_events\<close>: the events that a child running the given command emits while
    the launch is still waiting for the channels (a command that cannot be run emits its
    error there).
\<close>

record world =
  files :: "path \<rightharpoonup> string"
  dirs :: "path set"
  denied :: "path set"
  process_env :: environ
  runtimeDir :: path
  findAll :: "js_error + kernel_resource_by_name"
  getPorts :: "nat \<Rightarrow> pf_options \<Rightarrow> js_error + nat list"
  probes :: "(nat \<times> pf_options) list"
  uuid_gen :: "nat \<Rightarrow> string"
  uuid_ctr :: nat
  createMainChannel :: "connection_info \<Rightarrow> js_error + Channels"
  console :: "js_error list"
  uncaught :: "js_error list"
  procs :: "child_process list"
  mkdirp_first :: bool
  early_events :: "string \<Rightarrow> child_event list"

subsection \<open>The collaborators\<close>

text \<open>\<^verbatim>\<open>uuid.v4()\<close>: the next identifier of the generator.\<close>

definition uuid_v4 :: "world \<Rightarrow> string \<times> world" where
  "uuid_v4 w = (uuid_gen w (uuid_ctr w), w\<lparr>uuid_ctr := Suc (uuid_ctr w)\<rparr>)"

text \<open>\<^verbatim>\<open>xs[i]\<close> of JavaScript: \<^verbatim>\<open>undefined\<close> out of range.\<close>

definition js_index :: "'a list \<Rightarrow> nat \<Rightarrow> 'a option" where
  "js_index xs i = (if i < length xs then Some (xs ! i) else None)"

text \<open>
  \<^verbatim>\<open>path.join(dir, name)\<close> and \<^verbatim>\<open>path.dirname\<close> on POSIX paths, for a directory
  written without a trailing separator.
\<close>

definition path_join :: "path \<Rightarrow> string \<Rightarrow> path" where
  "path_join d n = d @ ''/'' @ n"

definition dirname :: "path \<Rightarrow> path" where
  "dirname p = rev (drop 1 (dropWhile (\<lambda>c. c \<noteq> CHR ''/'') (rev p)))"

text \<open>
  \<^verbatim>\<open>fs.unlinkSync\<close>: throws \<^verbatim>\<open>ENOENT\<close> when there is no such file (\<^verbatim>\<open>EISDIR\<close> on a
  directory), \<^verbatim>\<open>EACCES\<close> when the deletion is refused, and removes the file otherwise.
\<close>

definition unlinkSync :: "path \<Rightarrow> world \<Rightarrow> js_error + world" where
  "unlinkSync p w =
     (case files w p of
        None \<Rightarrow> if p \<in> dirs w then Inl (SystemError EISDIR) else Inl (SystemError ENOENT)
      | Some content \<Rightarrow>
          if p \<in> denied w then Inl (SystemError EACCES)
          else Inr (w\<lparr>files := (files w)(p := None)\<rparr>))"

text \<open>
  \<^verbatim>\<open>mkdirp(dir, callback)\<close>: an existing directory is fine; the error, if any, is what
  the callback is called with.
\<close>

definition mkdirp :: "path \<Rightarrow> world \<Rightarrow> js_error option \<times> world" where
  "mkdirp d w =
     (if d \<in> dirs w then (None, w)
      else if files w d \<noteq> None then (Some (SystemError EEXIST), w)
      else if d \<in> denied w then (Some (SystemError EACCES), w)
      else (None, w\<lparr>dirs := insert d (dirs w)\<rparr>))"

text \<open>
  What \<^verbatim>\<open>fs.writeFile\<close> writes for its data argument: a string as it is; anything that
  is not a string or a buffer is turned into a string by \<^verbatim>\<open>'' + data\<close>, which for a
  plain object is the text \<^verbatim>\<open>[object Object]\<close> (Node up to version 12, the versions
  this module was written for; later versions reject the call with a type error instead).
\<close>

fun js_to_string :: "js_data \<Rightarrow> string" where
  "js_to_string (JString s) = s"
| "js_to_string (JObject c) = ''[object Object]''"

definition writeFile :: "path \<Rightarrow> js_data \<Rightarrow> world \<Rightarrow> js_error + world" where
  "writeFile p d w =
     (if p \<in> dirs w then Inl (SystemError EISDIR)
      else if dirname p \<notin> dirs w then Inl (SystemError ENOENT)
      else if p \<in> denied w then Inl (SystemError EACCES)
      else Inr (w\<lparr>files := (files w)(p \<mapsto> js_to_string d)\<rparr>))"

text \<open>
  \<^verbatim>\<open>execa(file, args, options)\<close>: a new child process with no observer yet. Without a
  command (\<^verbatim>\<open>argv[0]\<close> of an empty argv is \<^verbatim>\<open>undefined\<close>) the call throws. A command
  that cannot be run is reported later, by the child's error event.
\<close>

definition execa :: "string option \<Rightarrow> string list \<Rightarrow> spawn_options \<Rightarrow> world \<Rightarrow> js_error + (nat \<times> world)" where
  "execa f xs opts w =
     (case f of
        None \<Rightarrow> Inl TypeError
      | Some cmd \<Rightarrow>
          Inr (length (procs w),
               w\<lparr>procs := procs w @
                  [\<lparr>exec_file = cmd, args = xs, options = opts, on_exit = [], on_error = []\<rparr>]\<rparr>))"

text \<open>\<^verbatim>\<open>child.on("exit", h)\<close> and \<^verbatim>\<open>child.on("error", h)\<close>.\<close>

definition on_exit_register :: "nat \<Rightarrow> handler \<Rightarrow> world \<Rightarrow> world" where
  "on_exit_register pid h w =
     (if pid < length (procs w)
      then w\<lparr>procs := (procs w)[pid := (procs w ! pid)\<lparr>on_exit := on_exit (procs w ! pid) @ [h]\<rparr>]\<rparr>
      else w)"

definition on_error_register :: "nat \<Rightarrow> handler \<Rightarrow> world \<Rightarrow> world" where
  "on_error_register pid h w =
     (if pid < length (procs w)
      then w\<lparr>procs := (procs w)[pid := (procs w ! pid)\<lparr>on_error := on_error (procs w ! pid) @ [h]\<rparr>]\<rparr>
      else w)"

subsection \<open>cleanup\<close>

text \<open>
  \<^verbatim>\<open>
  export function cleanup(connectionFile: fs.PathLike) {
    try {
      fs.unlinkSync(connectionFile);
    } catch (e) {
      return;
    }
  }
  \<close>
\<close>

definition cleanup :: "path \<Rightarrow> world \<Rightarrow> js_error + world" where
  "cleanup cf w =
     (case unlinkSync cf w of
        Inl e \<Rightarrow> Inr w
      | Inr w' \<Rightarrow> Inr w')"

text \<open>
  A child's exit or error event calls the observers registered for it, in the order of
  registration. An exception that leaves an observer has no caller to go to.
\<close>

fun run_handler :: "handler \<Rightarrow> world \<Rightarrow> world" where
  "run_handler (Cleanup p) w =
     (case cleanup p w of
        Inl e \<Rightarrow> w\<lparr>uncaught := uncaught w @ [e]\<rparr>
      | Inr w' \<Rightarrow> w')"

definition emit_exit :: "nat \<Rightarrow> world \<Rightarrow> world" where
  "emit_exit pid w =
     (if pid < length (procs w) then fold run_handler (on_exit (procs w ! pid)) w else w)"

definition emit_error :: "nat \<Rightarrow> world \<Rightarrow> world" where
  "emit_error pid w =
     (if pid < length (procs w) then fold run_handler (on_error (procs w ! pid)) w else w)"

fun emit :: "nat \<Rightarrow> child_event \<Rightarrow> world \<Rightarrow> world" where
  "emit pid ExitEvent w = emit_exit pid w"
| "emit pid ErrorEvent w = emit_error pid w"

subsection \<open>createConnectionInfo\<close>

text \<open>
  \<^verbatim>\<open>
  function createConnectionInfo(ports: number[]) {
    return {
      version: 5,
      key: uuid.v4(),
      signature_scheme: "hmac-sha256",
      transport: "tcp",
      ip: "127.0.0.1",
      hb_port: ports[0],
      control_port: ports[1],
      shell_port: ports[2],
      stdin_port: ports[3],
      iopub_port: ports[4]
    };
  }
  \<close>
\<close>

definition createConnectionInfo :: "nat list \<Rightarrow> world \<Rightarrow> connection_info \<times> world" where
  "createConnectionInfo ports w =
     (case uuid_v4 w of
        (k, w') \<Rightarrow>
          (\<lparr>version = 5,
            key = k,
            signature_scheme = ''hmac-sha256'',
            transport = ''tcp'',
            ip = ''127.0.0.1'',
            hb_port = js_index ports 0,
            control_port = js_index ports 1,
            shell_port = js_index ports 2,
            stdin_port = js_index ports 3,
            iopub_port = js_index ports 4\<rparr>, w'))"

subsection \<open>writeConnectionFile\<close>

text \<open>
  \<^verbatim>\<open>
  const options = Object.assign({}, portFinderOptions);
  options.port = options.port || 9000;
  options.host = options.host || "127.0.0.1";
  \<close>
  \<^verbatim>\<open>||\<close> takes its right operand when the left one is falsy: a missing options object,
  the port \<open>0\<close>, the empty host.
\<close>

definition portOptions :: "pf_options option \<Rightarrow> pf_options" where
  "portOptions portFinderOptions =
     \<lparr>port = (case portFinderOptions of
                None \<Rightarrow> 9000
              | Some opts \<Rightarrow> if port opts = 0 then 9000 else port opts),
      host = (case portFinderOptions of
                None \<Rightarrow> ''127.0.0.1''
              | Some opts \<Rightarrow> if host opts = [] then ''127.0.0.1'' else host opts)\<rparr>"

text \<open>
  The callback given to mkdirp, \<^verbatim>\<open>error => { if (error) { throw error; } }\<close>. mkdirp
  calls it from its own completion, outside the \<^verbatim>\<open>try\<close> block and outside the promise
  of \<^verbatim>\<open>writeConnectionFile\<close>, so what it throws is an uncaught exception.
\<close>

definition mkdirp_callback :: "js_error option \<Rightarrow> world \<Rightarrow> world" where
  "mkdirp_callback err w =
     (case err of
        None \<Rightarrow> w
      | Some e \<Rightarrow> w\<lparr>uncaught := uncaught w @ [e]\<rparr>)"

text \<open>
  \<^verbatim>\<open>
  try {
    const ports = await getPorts(5, options);
    const runtimeDir = await jp.runtimeDir();
    mkdirp(runtimeDir, error => { if (error) { throw error; } });
    const config = createConnectionInfo(ports);
    const connectionFile = path.join(await jp.runtimeDir(), `kernel-${uuid.v4()}.json`);
    await writeFile(connectionFile, config);
    return { config, connectionFile };
  } catch (error) {
    console.log(error);
    throw error;
  }
  \<close>
  mkdirp is called and not awaited: the function goes on while mkdirp works, and the
  write of the file may run before mkdirp has finished or after. \<open>mkdirp_first\<close> says
  which; in either case mkdirp finishes, and its callback runs, at some point.
\<close>

definition mkdirp_completion :: "path \<Rightarrow> world \<Rightarrow> world" where
  "mkdirp_completion d w = (case mkdirp d w of (err, w') \<Rightarrow> mkdirp_callback err w')"

definition writeConnectionFile ::
  "pf_options option \<Rightarrow> world \<Rightarrow> (js_error + connection_info \<times> path) \<times> world" where
  "writeConnectionFile portFinderOptions w =
     (let opts = portOptions portFinderOptions;
          w1 = w\<lparr>probes := probes w @ [(5, opts)]\<rparr>
      in case getPorts w1 5 opts of
           Inl e \<Rightarrow> (Inl e, w1\<lparr>console := console w1 @ [e]\<rparr>)
         | Inr ports \<Rightarrow>
             (let d = runtimeDir w1;
                  w2 = (if mkdirp_first w1 then mkdirp_completion d w1 else w1)
              in case createConnectionInfo ports w2 of
                   (cfg, w3) \<Rightarrow>
                     (case uuid_v4 w3 of
                        (u, w4) \<Rightarrow>
                          (let cf = path_join (runtimeDir w4) (''kernel-'' @ u @ ''.json'')
                           in case writeFile cf (JObject cfg) w4 of
                                Inl e \<Rightarrow>
                                  (let w5 = w4\<lparr>console := console w4 @ [e]\<rparr>
                                   in (Inl e, if mkdirp_first w5 then w5
                                              else mkdirp_completion d w5))
                              | Inr w5 \<Rightarrow>
                                  (Inr (cfg, cf), if mkdirp_first w5 then w5
                                                  else mkdirp_completion d w5)))))"

subsection \<open>launchSpecFromConnectionInfo\<close>

text \<open>
  \<^verbatim>\<open>
  const argv = kernelSpec.argv.map((x: string) =>
    x === "{connection_file}" ? connectionFile : x
  );
  \<close>
\<close>

definition expand_argv :: "path \<Rightarrow> string list \<Rightarrow> string list" where
  "expand_argv cf xs = map (\<lambda>x. if x = ''{connection_file}'' then cf else x) xs"

text \<open>
  \<^verbatim>\<open>Object.assign(target, source)\<close> on option objects: every key that the source has
  replaces the target's, whole, also when the source's value is \<^verbatim>\<open>undefined\<close>; a key
  the source lacks keeps the target's value.
\<close>

definition Object_assign :: "spawn_options \<Rightarrow> spawn_options \<Rightarrow> spawn_options" where
  "Object_assign target source =
     \<lparr>cleanupConnectionFile =
        (case cleanupConnectionFile source of
           Absent \<Rightarrow> cleanupConnectionFile target | Undef \<Rightarrow> Undef | Present v \<Rightarrow> Present v),
      stdio = (case stdio source of
                 Absent \<Rightarrow> stdio target | Undef \<Rightarrow> Undef | Present v \<Rightarrow> Present v),
      env_option = (case env_option source of
                      Absent \<Rightarrow> env_option target | Undef \<Rightarrow> Undef | Present v \<Rightarrow> Present v),
      passthrough = passthrough target ++ passthrough source\<rparr>"

definition empty_object :: spawn_options where
  "empty_object =
     \<lparr>cleanupConnectionFile = Absent, stdio = Absent, env_option = Absent,
      passthrough = Map.empty\<rparr>"

definition defaultSpawnOptions :: spawn_options where
  "defaultSpawnOptions =
     empty_object\<lparr>cleanupConnectionFile := Present True, stdio := Present ''ignore''\<rparr>"

text \<open>
  \<^verbatim>\<open>
  const env = Object.assign({}, process.env, kernelSpec.env);
  const fullSpawnOptions = Object.assign({}, defaultSpawnOptions, { env }, spawnOptions);
  \<close>
  A \<^verbatim>\<open>spawnOptions\<close> that is \<^verbatim>\<open>undefined\<close> is a source that Object.assign skips.
\<close>

definition fullSpawnOptions :: "world \<Rightarrow> kernel_spec \<Rightarrow> spawn_options option \<Rightarrow> spawn_options" where
  "fullSpawnOptions w ks spawnOptions =
     (let e = process_env w ++ env ks;
          o1 = Object_assign empty_object defaultSpawnOptions;
          o2 = Object_assign o1 (empty_object\<lparr>env_option := Present e\<rparr>)
      in case spawnOptions of
           None \<Rightarrow> o2
         | Some so \<Rightarrow> Object_assign o2 so)"

text \<open>
  \<^verbatim>\<open>
  const runningKernel = execa(argv[0], argv.slice(1), fullSpawnOptions);
  if (fullSpawnOptions.cleanupConnectionFile !== false) {
    runningKernel.on("exit", (code, signal) => cleanup(connectionFile));
    runningKernel.on("error", error => cleanup(connectionFile));
  }
  const channels = await createMainChannel(config);
  return { channels, config, connectionFile, kernelSpec, spawn: runningKernel };
  \<close>
  The kernel spec is \<open>None\<close> when the caller hands in \<^verbatim>\<open>undefined\<close>; reading
  \<^verbatim>\<open>kernelSpec.argv\<close> then throws. While the function waits for the channels the
  child runs, and the events it emits in that time call the observers registered by then.
\<close>

definition launchSpecFromConnectionInfo ::
  "kernel_spec option \<Rightarrow> connection_info \<Rightarrow> path \<Rightarrow> spawn_options option \<Rightarrow> world
     \<Rightarrow> (js_error + launched_kernel) \<times> world" where
  "launchSpecFromConnectionInfo kso cfg cf spawnOptions w =
     (case kso of
        None \<Rightarrow> (Inl TypeError, w)
      | Some ks \<Rightarrow>
          (let xs = expand_argv cf (argv ks);
               fso = fullSpawnOptions w ks spawnOptions
           in case execa (js_index xs 0) (drop 1 xs) fso w of
                Inl e \<Rightarrow> (Inl e, w)
              | Inr (runningKernel, w1) \<Rightarrow>
                  (let w2 = (if cleanupConnectionFile fso \<noteq> Present False
                             then on_error_register runningKernel (Cleanup cf)
                                    (on_exit_register runningKernel (Cleanup cf) w1)
                             else w1);
                       w3 = fold (emit runningKernel)
                              (early_events w2 (exec_file (procs w2 ! runningKernel))) w2
                   in case createMainChannel w3 cfg of
                        Inl e \<Rightarrow> (Inl e, w3)
                      | Inr ch \<Rightarrow>
                          (Inr \<lparr>channels = ch, config = cfg, connectionFile = cf,
                                kernelSpec = ks, spawn = runningKernel\<rparr>, w3))))"

subsection \<open>launchSpec\<close>

text \<open>
  \<^verbatim>\<open>
  async function launchSpec(kernelSpec: KernelSpec, spawnOptions?: Options) {
    const info = await writeConnectionFile();
    return launchSpecFromConnectionInfo(kernelSpec, info.config, info.connectionFile, spawnOptions);
  }
  \<close>
\<close>

definition launchSpec ::
  "kernel_spec option \<Rightarrow> spawn_options option \<Rightarrow> world \<Rightarrow> (js_error + launched_kernel) \<times> world" where
  "launchSpec kso spawnOptions w =
     (case writeConnectionFile None w of
        (Inl e, w1) \<Rightarrow> (Inl e, w1)
      | (Inr (cfg, cf), w1) \<Rightarrow> launchSpecFromConnectionInfo kso cfg cf spawnOptions w1)"

subsection \<open>launch\<close>

text \<open>
  \<^verbatim>\<open>specs[kernelName]\<close> reads a property of a plain object: an own key gives its
  resource; a name that the object does not have itself is looked up in
  \<^verbatim>\<open>Object.prototype\<close>, whose members every plain object inherits; any other name gives
  \<^verbatim>\<open>undefined\<close>.
\<close>

definition object_prototype_keys :: "string list" where
  "object_prototype_keys =
     [''constructor'', ''toString'', ''toLocaleString'', ''valueOf'', ''hasOwnProperty'',
      ''isPrototypeOf'', ''propertyIsEnumerable'', ''__proto__'', ''__defineGetter__'',
      ''__defineSetter__'', ''__lookupGetter__'', ''__lookupSetter__'']"

datatype 'a js_property = Own 'a | Inherited | Undefined

definition js_get :: "(string \<rightharpoonup> 'a) \<Rightarrow> string \<Rightarrow> 'a js_property" where
  "js_get obj k =
     (case obj k of
        Some v \<Rightarrow> Own v
      | None \<Rightarrow> if k \<in> set object_prototype_keys then Inherited else Undefined)"

text \<open>
  \<^verbatim>\<open>
  if (!specs[kernelName]) {
    return Promise.reject(new Error(`No spec available for ${kernelName}`));
  }
  const spec = specs[kernelName].spec;
  return launchSpec(spec, spawnOptions);
  \<close>
  An inherited member is a function or an object, so it is truthy, and it has no
  \<^verbatim>\<open>spec\<close>: the kernel spec handed on is \<^verbatim>\<open>undefined\<close>.
\<close>

definition launch_in_specs ::
  "string \<Rightarrow> spawn_options option \<Rightarrow> kernel_resource_by_name \<Rightarrow> world
     \<Rightarrow> (js_error + launched_kernel) \<times> world" where
  "launch_in_specs kernelName spawnOptions specs w =
     (case js_get specs kernelName of
        Undefined \<Rightarrow> (Inl (Error (''No spec available for '' @ kernelName)), w)
      | Inherited \<Rightarrow> launchSpec None spawnOptions w
      | Own r \<Rightarrow> launchSpec (Some (spec r)) spawnOptions w)"

text \<open>
  \<^verbatim>\<open>
  if (!specs) {
    return findAll().then((sp: KernelResourceByName) => launch(kernelName, spawnOptions, sp));
  }
  \<close>
  The inner call has its specs, so it does not come back here.
\<close>

definition launch ::
  "string \<Rightarrow> spawn_options option \<Rightarrow> kernel_resource_by_name option \<Rightarrow> world
     \<Rightarrow> (js_error + launched_kernel) \<times> world" where
  "launch kernelName spawnOptions specs w =
     (case specs of
        None \<Rightarrow>
          (case findAll w of
             Inl e \<Rightarrow> (Inl e, w)
           | Inr sp \<Rightarrow> launch_in_specs kernelName spawnOptions sp w)
      | Some sp \<Rightarrow> launch_in_specs kernelName spawnOptions sp w)"

subsection \<open>Scenarios\<close>

text \<open>
  Concrete inputs on which the functions above are run. \<open>world0\<close> is a machine whose
  runtime directory exists, where ports are free from the base port on, and with one
  installed kernel. \<open>world_written\<close> is that machine after a connection file was written;
  in \<open>world_locked\<close> the file may not be deleted; in \<open>world_no_dir\<close> the runtime
  directory is missing and may not be created; in \<open>world_no_write\<close> the directory is
  there and the file may not be written. In \<open>world_new_dir\<close> the runtime directory is
  missing and can be created, and the write of the file runs before mkdirp has finished.
  In \<open>world_no_command\<close> the connection file is written and the command of the kernel
  cannot be run: the child emits its error while the launch waits for the channels.
\<close>

definition python3_spec :: kernel_spec where
  "python3_spec =
     \<lparr>argv = [''python3'', ''-m'', ''ipykernel_launcher'', ''-f'', ''{connection_file}''],
      env = [''PYTHONUNBUFFERED'' \<mapsto> ''1''],
      display_name = ''Python 3''\<rparr>"

definition world0 :: world where
  "world0 =
     \<lparr>files = Map.empty,
      dirs = {''/run/jupyter''},
      denied = {},
      process_env = [''PATH'' \<mapsto> ''/usr/bin''],
      runtimeDir = ''/run/jupyter'',
      findAll = Inr [''python3'' \<mapsto> \<lparr>name = ''python3'', spec = python3_spec\<rparr>],
      getPorts = (\<lambda>n opts. Inr [port opts, port opts + 1, port opts + 2, port opts + 3, port opts + 4]),
      probes = [],
      uuid_gen = (\<lambda>n. if n = 0 then ''6c8e4b1a'' else if n = 1 then ''f27d90c3'' else ''00000000''),
      uuid_ctr = 0,
      createMainChannel = (\<lambda>c. Inr (Channels c)),
      console = [],
      uncaught = [],
      procs = [],
      mkdirp_first = True,
      early_events = (\<lambda>c. [])\<rparr>"

definition cfg0 :: connection_info where
  "cfg0 =
     \<lparr>version = 5, key = ''6c8e4b1a'', signature_scheme = ''hmac-sha256'',
      transport = ''tcp'', ip = ''127.0.0.1'',
      hb_port = Some 9000, control_port = Some 9001, shell_port = Some 9002,
      stdin_port = Some 9003, iopub_port = Some 9004\<rparr>"

definition cf0 :: path where
  "cf0 = ''/run/jupyter/kernel-f27d90c3.json''"

definition world_written :: world where
  "world_written =
     world0\<lparr>files := [cf0 \<mapsto> ''[object Object]''], uuid_ctr := 2,
            probes := [(5, \<lparr>port = 9000, host = ''127.0.0.1''\<rparr>)]\<rparr>"

definition world_locked :: world where
  "world_locked = world_written\<lparr>denied := {cf0}\<rparr>"

definition world_no_dir :: world where
  "world_no_dir = world0\<lparr>dirs := {''/run''}, denied := {''/run/jupyter''}\<rparr>"

definition world_no_write :: world where
  "world_no_write = world0\<lparr>denied := {cf0}\<rparr>"

definition world_new_dir :: world where
  "world_new_dir = world0\<lparr>dirs := {''/run''}, mkdirp_first := False\<rparr>"

definition world_no_command :: world where
  "world_no_command = world_written\<lparr>early_events := (\<lambda>c. [ErrorEvent])\<rparr>"

definition undefined_env_options :: spawn_options where
  "undefined_env_options = empty_object\<lparr>env_option := Undef\<rparr>"

definition no_cleanup :: spawn_options where
  "no_cleanup = empty_object\<lparr>cleanupConnectionFile := Present False\<rparr>"

definition caller_env :: environ where
  "caller_env = [''LANG'' \<mapsto> ''C'']"

definition caller_options :: spawn_options where
  "caller_options = empty_object\<lparr>env_option := Present caller_env\<rparr>"

section \<open>Properties\<close>

lemmas scenario_defs =
  python3_spec_def world0_def cfg0_def cf0_def world_written_def world_locked_def
  world_no_dir_def world_no_write_def world_new_dir_def world_no_command_def
  undefined_env_options_def no_cleanup_def caller_env_def caller_options_def

lemmas program_defs =
  uuid_v4_def js_index_def path_join_def dirname_def unlinkSync_def mkdirp_def writeFile_def
  execa_def on_exit_register_def on_error_register_def cleanup_def emit_exit_def emit_error_def
  createConnectionInfo_def portOptions_def mkdirp_callback_def mkdirp_completion_def
  writeConnectionFile_def
  expand_argv_def Object_assign_def empty_object_def defaultSpawnOptions_def fullSpawnOptions_def
  launchSpecFromConnectionInfo_def launchSpec_def object_prototype_keys_def js_get_def
  launch_in_specs_def launch_def Let_def

subsection \<open>What each function leaves alone\<close>

lemma cleanup_cases:
  "cleanup cf w =
     Inr (if files w cf \<noteq> None \<and> cf \<notin> denied w then w\<lparr>files := (files w)(cf := None)\<rparr> else w)"
  by (simp add: cleanup_def unlinkSync_def split: option.splits)

lemma run_handler_cases:
  "run_handler (Cleanup p) w =
     (if files w p \<noteq> None \<and> p \<notin> denied w then w\<lparr>files := (files w)(p := None)\<rparr> else w)"
  by (simp add: cleanup_cases)

lemma procs_run_handler [simp]: "procs (run_handler h w) = procs w"
  by (cases h) (simp add: cleanup_cases)

lemma probes_run_handler [simp]: "probes (run_handler h w) = probes w"
  by (cases h) (simp add: cleanup_cases)

lemma procs_fold_run_handler [simp]: "procs (fold run_handler hs w) = procs w"
  by (induction hs arbitrary: w) simp_all

lemma probes_fold_run_handler [simp]: "probes (fold run_handler hs w) = probes w"
  by (induction hs arbitrary: w) simp_all

lemma procs_emit [simp]: "procs (emit pid ev w) = procs w"
  by (cases ev) (simp_all add: emit_exit_def emit_error_def)

lemma probes_emit [simp]: "probes (emit pid ev w) = probes w"
  by (cases ev) (simp_all add: emit_exit_def emit_error_def)

lemma procs_fold_emit [simp]: "procs (fold (emit pid) evs w) = procs w"
  by (induction evs arbitrary: w) simp_all

lemma probes_fold_emit [simp]: "probes (fold (emit pid) evs w) = probes w"
  by (induction evs arbitrary: w) simp_all

lemma probes_register [simp]:
  "probes (on_exit_register pid h w) = probes w"
  "probes (on_error_register pid h w) = probes w"
  by (simp_all add: on_exit_register_def on_error_register_def)

lemma files_register [simp]:
  "files (on_exit_register pid h w) = files w"
  "files (on_error_register pid h w) = files w"
  by (simp_all add: on_exit_register_def on_error_register_def)

lemma launchSpecFromConnectionInfo_probes:
  "probes (snd (launchSpecFromConnectionInfo kso cfg cf spawnOptions w)) = probes w"
  by (auto simp: launchSpecFromConnectionInfo_def execa_def Let_def
      split: option.splits sum.splits prod.splits)

lemma mkdirp_completion_keeps [simp]:
  "probes (mkdirp_completion d w) = probes w"
  "files (mkdirp_completion d w) = files w"
  by (simp_all add: mkdirp_completion_def mkdirp_def mkdirp_callback_def split: option.splits)

lemma writeConnectionFile_probes:
  "probes (snd (writeConnectionFile pfo w)) = probes w @ [(5, portOptions pfo)]"
  by (auto simp: writeConnectionFile_def Let_def createConnectionInfo_def uuid_v4_def
      writeFile_def split: sum.splits prod.splits if_splits)

lemma emit_exit_no_handlers:
  "pid < length (procs w) \<Longrightarrow> on_exit (procs w ! pid) = [] \<Longrightarrow> emit_exit pid w = w"
  by (simp add: emit_exit_def)

lemma emit_no_handlers:
  "on_exit (procs w ! pid) = [] \<Longrightarrow> on_error (procs w ! pid) = [] \<Longrightarrow> emit pid ev w = w"
  by (cases ev) (simp_all add: emit_exit_def emit_error_def)

lemma fold_emit_no_handlers:
  "on_exit (procs w ! pid) = [] \<Longrightarrow> on_error (procs w ! pid) = [] \<Longrightarrow>
   fold (emit pid) evs w = w"
  by (induction evs) (simp_all add: emit_no_handlers)

subsection \<open>The spawned child\<close>

text \<open>
  A launch whose spec has a command spawns exactly one child: its command line is the
  expanded argv, its options are the merged spawn options, and its two observer lists are
  the same, holding the cleanup of the connection file unless the merged options say
  \<^verbatim>\<open>cleanupConnectionFile: false\<close>. This holds whether or not the channels open. The
  state in which the launch settles is the state after the registration, with the events
  that the child emitted in the meantime applied to it.
\<close>

lemma fullSpawnOptions_cleanup:
  "cleanupConnectionFile (fullSpawnOptions w ks spawnOptions) =
     (case spawnOptions of
        None \<Rightarrow> Present True
      | Some so \<Rightarrow>
          (case cleanupConnectionFile so of
             Absent \<Rightarrow> Present True
           | Undef \<Rightarrow> Undef
           | Present b \<Rightarrow> Present b))"
  by (simp add: fullSpawnOptions_def Object_assign_def empty_object_def defaultSpawnOptions_def
      Let_def split: option.splits js_key.splits)

lemma launchSpecFromConnectionInfo_settles:
  assumes "launchSpecFromConnectionInfo (Some ks) cfg cf spawnOptions w = (r, w')"
    and "argv ks \<noteq> []"
  shows "\<exists>c w2. procs w2 = procs w @ [c] \<and>
             files w2 = files w \<and>
             exec_file c # args c = expand_argv cf (argv ks) \<and>
             options c = fullSpawnOptions w ks spawnOptions \<and>
             on_exit c = (if cleanupConnectionFile (fullSpawnOptions w ks spawnOptions) \<noteq> Present False
                          then [Cleanup cf] else []) \<and>
             on_error c = on_exit c \<and>
             w' = fold (emit (length (procs w))) (early_events w (exec_file c)) w2"
proof -
  obtain x xs where a: "argv ks = x # xs"
    using assms(2) by (cases "argv ks") auto
  show ?thesis
  proof (cases "cleanupConnectionFile (fullSpawnOptions w ks spawnOptions) \<noteq> Present False")
    case True
    let ?c = "\<lparr>exec_file = (if x = ''{connection_file}'' then cf else x),
                args = expand_argv cf xs,
                options = fullSpawnOptions w ks spawnOptions,
                on_exit = [Cleanup cf], on_error = [Cleanup cf]\<rparr>"
    let ?w2 = "w\<lparr>procs := procs w @ [?c]\<rparr>"
    have "w' = fold (emit (length (procs w))) (early_events w (exec_file ?c)) ?w2"
      using assms(1) a True
      by (auto simp: launchSpecFromConnectionInfo_def execa_def js_index_def expand_argv_def
          Let_def on_exit_register_def on_error_register_def nth_append
          split: sum.splits)
    then show ?thesis
      using a True by (intro exI [of _ ?c] exI [of _ ?w2]) (simp add: expand_argv_def)
  next
    case False
    let ?c = "\<lparr>exec_file = (if x = ''{connection_file}'' then cf else x),
                args = expand_argv cf xs,
                options = fullSpawnOptions w ks spawnOptions,
                on_exit = [], on_error = []\<rparr>"
    let ?w2 = "w\<lparr>procs := procs w @ [?c]\<rparr>"
    have "w' = fold (emit (length (procs w))) (early_events w (exec_file ?c)) ?w2"
      using assms(1) a False
      by (auto simp: launchSpecFromConnectionInfo_def execa_def js_index_def expand_argv_def
          Let_def split: sum.splits)
    then show ?thesis
      using a False by (intro exI [of _ ?c] exI [of _ ?w2]) (simp add: expand_argv_def)
  qed
qed

lemma launchSpecFromConnectionInfo_child:
  assumes "launchSpecFromConnectionInfo (Some ks) cfg cf spawnOptions w = (r, w')"
    and "argv ks \<noteq> []"
  shows "\<exists>c. procs w' = procs w @ [c] \<and>
             exec_file c # args c = expand_argv cf (argv ks) \<and>
             options c = fullSpawnOptions w ks spawnOptions \<and>
             on_exit c = (if cleanupConnectionFile (fullSpawnOptions w ks spawnOptions) \<noteq> Present False
                          then [Cleanup cf] else []) \<and>
             on_error c = on_exit c"
proof -
  from launchSpecFromConnectionInfo_settles [OF assms]
  obtain c w2 where "procs w2 = procs w @ [c]"
    and "exec_file c # args c = expand_argv cf (argv ks)"
    and "options c = fullSpawnOptions w ks spawnOptions"
    and "on_exit c = (if cleanupConnectionFile (fullSpawnOptions w ks spawnOptions) \<noteq> Present False
                      then [Cleanup cf] else [])"
    and "on_error c = on_exit c"
    and "w' = fold (emit (length (procs w))) (early_events w (exec_file c)) w2"
    by blast
  then show ?thesis
    by (intro exI [of _ c]) simp
qed

text \<open>
  With no observer on the child, the events it emits during the launch change nothing: the
  files on disk when the launch settles are those from before.
\<close>

lemma launchSpecFromConnectionInfo_files:
  assumes "launchSpecFromConnectionInfo (Some ks) cfg cf spawnOptions w = (r, w')"
    and "argv ks \<noteq> []"
    and "cleanupConnectionFile (fullSpawnOptions w ks spawnOptions) = Present False"
  shows "files w' = files w"
proof -
  from launchSpecFromConnectionInfo_settles [OF assms(1,2)]
  obtain c w2 where p: "procs w2 = procs w @ [c]"
    and f: "files w2 = files w"
    and h: "on_exit c = (if cleanupConnectionFile (fullSpawnOptions w ks spawnOptions) \<noteq> Present False
                         then [Cleanup cf] else [])"
    and e: "on_error c = on_exit c"
    and w: "w' = fold (emit (length (procs w))) (early_events w (exec_file c)) w2"
    by blast
  have "procs w2 ! length (procs w) = c"
    using p by simp
  then have "fold (emit (length (procs w))) (early_events w (exec_file c)) w2 = w2"
    using h e assms(3) by (intro fold_emit_no_handlers) simp_all
  then show ?thesis
    using w f by simp
qed

subsection \<open>The connection file\<close>

text \<open>
  Whenever \<open>writeConnectionFile\<close> resolves, the file at the path it returns holds the
  text \<^verbatim>\<open>[object Object]\<close>, whatever the descriptor is: the descriptor object itself,
  not a serialization of it, is what \<^verbatim>\<open>writeFile\<close> is given.
\<close>

lemma writeConnectionFile_contents:
  "writeConnectionFile pfo w = (Inr (cfg, cf), w') \<Longrightarrow> files w' cf = Some ''[object Object]''"
  by (auto simp: writeConnectionFile_def Let_def createConnectionInfo_def uuid_v4_def
      writeFile_def split: sum.splits prod.splits if_splits)

text \<open>
  C1, on the machine \<open>world0\<close>: \<open>writeConnectionFile\<close> resolves with the descriptor
  \<open>cfg0\<close> (version 5, the five ports 9000 to 9004) and the path \<open>cf0\<close>, and the file at
  that path then holds the fifteen characters \<^verbatim>\<open>[object Object]\<close>. The contents name
  no version, key or port, so they do not deserialize to the descriptor.
\<close>

theorem writeConnectionFile_writes_object_Object:
  "writeConnectionFile None world0 = (Inr (cfg0, cf0), world_written) \<and>
   files world_written cf0 = Some ''[object Object]''"
  by (simp add: program_defs scenario_defs)

subsection \<open>The environment of the child\<close>

theorem fullSpawnOptions_env_counterexample:
  "env_option (fullSpawnOptions world0 python3_spec (Some caller_options)) = Present caller_env \<and>
   caller_env ''PYTHONUNBUFFERED'' = None \<and>
   caller_env ''PATH'' = None \<and>
   (process_env world0 ++ env python3_spec ++ caller_env) ''PYTHONUNBUFFERED'' = Some ''1'' \<and>
   (process_env world0 ++ env python3_spec ++ caller_env) ''PATH'' = Some ''/usr/bin''"
  by (simp add: fullSpawnOptions_def Object_assign_def empty_object_def defaultSpawnOptions_def
      Let_def scenario_defs)

text \<open>
  C2, as the code has it: the \<^verbatim>\<open>env\<close> option handed to the spawn is the ambient
  process environment overlaid by the kernel spec's declared env when the spawn options
  carry no \<^verbatim>\<open>env\<close> (the spec's value wins on a shared key, and a key of either layer is
  present); when the spawn options carry an \<^verbatim>\<open>env\<close>, it is that map and nothing else:
  the caller's values win, and a key set only in the spec's env or only in the ambient
  environment is not in it; when the spawn options have the key \<^verbatim>\<open>env\<close> with the value
  \<^verbatim>\<open>undefined\<close>, the option handed on is \<^verbatim>\<open>undefined\<close> as well. (What execa does
  with the option it is given is execa's.)
\<close>

theorem fullSpawnOptions_env:
  "env_option (fullSpawnOptions w ks spawnOptions) =
     (case spawnOptions of
        None \<Rightarrow> Present (process_env w ++ env ks)
      | Some so \<Rightarrow>
          (case env_option so of
             Absent \<Rightarrow> Present (process_env w ++ env ks)
           | Undef \<Rightarrow> Undef
           | Present e \<Rightarrow> Present e))"
  by (simp add: fullSpawnOptions_def Object_assign_def empty_object_def defaultSpawnOptions_def
      Let_def split: option.splits js_key.splits)

theorem fullSpawnOptions_env_witness:
  "(\<exists>e. env_option (fullSpawnOptions world0 python3_spec None) = Present e \<and>
        e ''PATH'' = Some ''/usr/bin'' \<and> e ''PYTHONUNBUFFERED'' = Some ''1'') \<and>
   (\<exists>e. env_option (fullSpawnOptions world0 python3_spec (Some no_cleanup)) = Present e \<and>
        e ''PATH'' = Some ''/usr/bin'' \<and> e ''PYTHONUNBUFFERED'' = Some ''1'') \<and>
   env_option (fullSpawnOptions world0 python3_spec (Some caller_options)) = Present caller_env \<and>
   env_option (fullSpawnOptions world0 python3_spec (Some undefined_env_options)) = Undef"
  using fullSpawnOptions_env [of world0 python3_spec None]
    fullSpawnOptions_env [of world0 python3_spec "Some no_cleanup"]
    fullSpawnOptions_env [of world0 python3_spec "Some caller_options"]
    fullSpawnOptions_env [of world0 python3_spec "Some undefined_env_options"]
  by (simp add: scenario_defs empty_object_def)

subsection \<open>Failures of writeConnectionFile\<close>

text \<open>
  When the file cannot be written, the call rejects with the error of the write, which is
  also logged, and nothing is thrown elsewhere.
\<close>

lemma writeConnectionFile_write_failure:
  "fst (writeConnectionFile None world_no_write) = Inl (SystemError EACCES) \<and>
   uncaught (snd (writeConnectionFile None world_no_write)) = [] \<and>
   console (snd (writeConnectionFile None world_no_write)) = [SystemError EACCES]"
  by (simp add: program_defs scenario_defs)

text \<open>
  When the runtime directory is missing and can be created, and the write runs before
  mkdirp has finished, the call rejects with the error of the write into the directory
  that is not there yet; the directory is there afterwards. When mkdirp finishes first,
  the call resolves.
\<close>

lemma writeConnectionFile_write_before_mkdirp:
  "fst (writeConnectionFile None world_new_dir) = Inl (SystemError ENOENT) \<and>
   dirs (snd (writeConnectionFile None world_new_dir)) = {''/run/jupyter'', ''/run''} \<and>
   uncaught (snd (writeConnectionFile None world_new_dir)) = [] \<and>
   fst (writeConnectionFile None (world_new_dir\<lparr>mkdirp_first := True\<rparr>)) = Inr (cfg0, cf0)"
  by (simp add: program_defs scenario_defs)

text \<open>
  When the runtime directory cannot be created, the outcome is the same in either order
  of mkdirp and the write.
\<close>

lemma writeConnectionFile_mkdirp_error_either_order:
  "fst (writeConnectionFile None (world_no_dir\<lparr>mkdirp_first := False\<rparr>)) =
     Inl (SystemError ENOENT) \<and>
   uncaught (snd (writeConnectionFile None (world_no_dir\<lparr>mkdirp_first := False\<rparr>))) =
     [SystemError EACCES] \<and>
   console (snd (writeConnectionFile None (world_no_dir\<lparr>mkdirp_first := False\<rparr>))) =
     [SystemError ENOENT]"
  by (simp add: program_defs scenario_defs)

text \<open>
  C3, on the machine \<open>world_no_dir\<close>, whose runtime directory cannot be created: the
  error of mkdirp (\<^verbatim>\<open>EACCES\<close>) is thrown by the callback and ends among the uncaught
  exceptions, outside the promise of the call; the call itself goes on to the write, and
  what it rejects with is the error of the write into the missing directory
  (\<^verbatim>\<open>ENOENT\<close>), the only error that is logged.
\<close>

theorem writeConnectionFile_mkdirp_error_uncaught:
  "fst (writeConnectionFile None world_no_dir) = Inl (SystemError ENOENT) \<and>
   uncaught (snd (writeConnectionFile None world_no_dir)) = [SystemError EACCES] \<and>
   console (snd (writeConnectionFile None world_no_dir)) = [SystemError ENOENT]"
  by (simp add: program_defs scenario_defs)

subsection \<open>The argv of the child\<close>

text \<open>
  C4: for every argv and every connection file path, the expanded argv has as many
  tokens as the argv, and at each position it holds the connection file's path where the
  argv holds the token \<^verbatim>\<open>{connection_file}\<close> and the argv's own token everywhere else.
\<close>

theorem expand_argv_tokens:
  "length (expand_argv cf xs) = length xs \<and>
   (\<forall>i<length xs.
      expand_argv cf xs ! i = (if xs ! i = ''{connection_file}'' then cf else xs ! i))"
  by (simp add: expand_argv_def)

theorem expand_argv_tokens_witness:
  "length (expand_argv cf0 (argv python3_spec)) = 5 \<and>
   expand_argv cf0 (argv python3_spec) ! 4 = cf0 \<and>
   expand_argv cf0 (argv python3_spec) ! 3 = ''-f''"
proof -
  have l: "length (argv python3_spec) = 5"
    by (simp add: python3_spec_def)
  have a: "argv python3_spec ! 4 = ''{connection_file}''" "argv python3_spec ! 3 = ''-f''"
    by (simp_all add: python3_spec_def)
  show ?thesis
    using expand_argv_tokens [of cf0 "argv python3_spec"] l a by simp
qed

subsection \<open>The connection descriptor\<close>

text \<open>
  C5: for every five ports, the descriptor built from them has version 5, signature
  scheme \<^verbatim>\<open>hmac-sha256\<close>, transport \<^verbatim>\<open>tcp\<close>, ip \<^verbatim>\<open>127.0.0.1\<close>, as key the
  identifier that this call draws from \<^verbatim>\<open>uuid.v4()\<close> (the generator moves on, so no
  later draw is this one), and the ports by position: index 0 is hb_port, 1 control_port,
  2 shell_port, 3 stdin_port, 4 iopub_port. How random the identifiers of \<^verbatim>\<open>uuid.v4()\<close>
  are is a matter of the uuid package.
\<close>

theorem createConnectionInfo_fields:
  "createConnectionInfo [p0, p1, p2, p3, p4] w =
     (\<lparr>version = 5, key = uuid_gen w (uuid_ctr w), signature_scheme = ''hmac-sha256'',
       transport = ''tcp'', ip = ''127.0.0.1'',
       hb_port = Some p0, control_port = Some p1, shell_port = Some p2,
       stdin_port = Some p3, iopub_port = Some p4\<rparr>,
      w\<lparr>uuid_ctr := Suc (uuid_ctr w)\<rparr>)"
  by (simp add: createConnectionInfo_def uuid_v4_def js_index_def)

theorem createConnectionInfo_fields_witness:
  "fst (createConnectionInfo [9000, 9001, 9002, 9003, 9004] world0) = cfg0 \<and>
   uuid_ctr (snd (createConnectionInfo [9000, 9001, 9002, 9003, 9004] world0)) = 1"
  using createConnectionInfo_fields [of 9000 9001 9002 9003 9004 world0]
  by (simp add: scenario_defs)

subsection \<open>Cleanup of the connection file\<close>

text \<open>
  When the child emits an error and later an exit, each event runs its own cleanup of the
  same file: the exit after the error changes nothing, and nothing is thrown.
\<close>

lemma error_then_exit:
  assumes "pid < length (procs w)"
    and "on_exit (procs w ! pid) = [Cleanup cf]"
    and "on_error (procs w ! pid) = [Cleanup cf]"
  shows "emit_exit pid (emit_error pid w) = emit_error pid w \<and>
         uncaught (emit_error pid w) = uncaught w"
  using assms by (simp add: emit_exit_def emit_error_def cleanup_cases)

text \<open>
  C6: for every connection file path and every state of the disk, cleanup returns
  normally, and a second cleanup of the same path returns normally too and leaves
  everything as the first one left it, so the file is deleted at most once; in particular
  cleanup of a file that is not there returns normally and changes nothing.
\<close>

theorem cleanup_twice:
  "(\<exists>w1. cleanup cf w = Inr w1 \<and> cleanup cf w1 = Inr w1) \<and>
   (files w cf = None \<longrightarrow> cleanup cf w = Inr w)"
  by (simp add: cleanup_cases)

theorem cleanup_twice_witness:
  "cleanup cf0 world_written = Inr (world_written\<lparr>files := Map.empty\<rparr>) \<and>
   files (world_written\<lparr>files := Map.empty\<rparr>) cf0 = None \<and>
   cleanup cf0 (world_written\<lparr>files := Map.empty\<rparr>) = Inr (world_written\<lparr>files := Map.empty\<rparr>)"
proof -
  have f: "files (world_written\<lparr>files := Map.empty\<rparr>) cf0 = None"
    by simp
  have c: "cleanup cf0 world_written = Inr (world_written\<lparr>files := Map.empty\<rparr>)"
    by (simp add: cleanup_def unlinkSync_def scenario_defs)
  show ?thesis
    using cleanup_twice [of cf0 "world_written\<lparr>files := Map.empty\<rparr>"] f c by simp
qed

theorem cleanup_logs_nothing_counterexample:
  "unlinkSync cf0 world_locked = Inl (SystemError EACCES) \<and>
   cleanup cf0 world_locked = Inr world_locked \<and>
   console world_locked = [] \<and>
   uncaught world_locked = []"
  by (simp add: cleanup_def unlinkSync_def scenario_defs)

text \<open>
  C7, as the code has it: cleanup does not tell the causes of a failed deletion apart.
  Whatever error the deletion throws, be it that the file is already gone or any other,
  cleanup returns normally and leaves the whole state as it was, the console included:
  the error is neither logged nor raised.
\<close>

theorem cleanup_swallows_every_error:
  "unlinkSync cf w = Inl e \<Longrightarrow> cleanup cf w = Inr w"
  by (simp add: cleanup_def)

theorem cleanup_swallows_every_error_witness:
  "unlinkSync cf0 world0 = Inl (SystemError ENOENT) \<and> cleanup cf0 world0 = Inr world0"
proof -
  have u: "unlinkSync cf0 world0 = Inl (SystemError ENOENT)"
    by (simp add: unlinkSync_def scenario_defs)
  show ?thesis
    using cleanup_swallows_every_error [OF u] u by simp
qed

subsection \<open>Launch by name\<close>

text \<open>
  A name that the mapping does not have, and that no plain object inherits, is rejected
  at once with the message that names it; nothing else happens.
\<close>

lemma launch_absent_name:
  "specs kernelName = None \<Longrightarrow> kernelName \<notin> set object_prototype_keys \<Longrightarrow>
   launch kernelName spawnOptions (Some specs) w =
     (Inl (Error (''No spec available for '' @ kernelName)), w)"
  by (simp add: launch_def launch_in_specs_def js_get_def)

text \<open>
  C8, at the kernel name \<^verbatim>\<open>constructor\<close> and the empty mapping, on the machine
  \<open>world0\<close>: the name is absent from the mapping, and the launch is not rejected with
  the error that names the missing kernel; it goes on, writes a connection file, and
  rejects with a type error when it reads the argv of a spec that is \<^verbatim>\<open>undefined\<close>.
\<close>

theorem launch_inherited_name:
  "fst (launch ''constructor'' None (Some Map.empty) world0) = Inl TypeError \<and>
   snd (launch ''constructor'' None (Some Map.empty) world0) = world_written"
  by (simp add: program_defs scenario_defs)

subsection \<open>The cleanupConnectionFile option\<close>

text \<open>
  With the cleanup left on and a command that cannot be run, the child's error comes
  while the launch waits for the channels: the connection file is gone when the launch
  settles. With the cleanup turned off it is still there.
\<close>

lemma launch_missing_command:
  "files (snd (launchSpecFromConnectionInfo (Some python3_spec) cfg0 cf0 None
                 world_no_command)) cf0 = None \<and>
   files (snd (launchSpecFromConnectionInfo (Some python3_spec) cfg0 cf0 (Some no_cleanup)
                 world_no_command)) cf0 = Some ''[object Object]''"
  by (simp add: program_defs scenario_defs)

text \<open>
  C9: a launch whose spec has a command spawns one child. When the spawn options hold
  \<^verbatim>\<open>cleanupConnectionFile: false\<close>, the child has no exit observer and no error
  observer, and after its exit the files on disk are those from before the launch, the
  connection file among them. When the option is absent or true (or anything else but
  \<^verbatim>\<open>false\<close>), the child has the cleanup of the connection file as its exit observer
  and as its error observer by the time the launch settles.
\<close>

theorem cleanupConnectionFile_option:
  assumes "launchSpecFromConnectionInfo (Some ks) cfg cf spawnOptions w = (r, w')"
    and "argv ks \<noteq> []"
  shows "length (procs w') = Suc (length (procs w)) \<and>
     ((\<exists>so. spawnOptions = Some so \<and> cleanupConnectionFile so = Present False) \<longrightarrow>
        on_exit (procs w' ! length (procs w)) = [] \<and>
        on_error (procs w' ! length (procs w)) = [] \<and>
        files (emit_exit (length (procs w)) w') = files w) \<and>
     (\<not> (\<exists>so. spawnOptions = Some so \<and> cleanupConnectionFile so = Present False) \<longrightarrow>
        on_exit (procs w' ! length (procs w)) = [Cleanup cf] \<and>
        on_error (procs w' ! length (procs w)) = [Cleanup cf])"
proof -
  let ?off = "\<exists>so. spawnOptions = Some so \<and> cleanupConnectionFile so = Present False"
  from launchSpecFromConnectionInfo_child [OF assms]
  obtain c where c: "procs w' = procs w @ [c]"
    and h: "on_exit c =
              (if cleanupConnectionFile (fullSpawnOptions w ks spawnOptions) \<noteq> Present False
               then [Cleanup cf] else [])"
    and e: "on_error c = on_exit c"
    by blast
  have o: "cleanupConnectionFile (fullSpawnOptions w ks spawnOptions) = Present False \<longleftrightarrow> ?off"
    by (auto simp: fullSpawnOptions_cleanup split: option.splits js_key.splits)
  have n: "procs w' ! length (procs w) = c"
    using c by simp
  have l: "length (procs w') = Suc (length (procs w))"
    using c by simp
  have a: "?off \<Longrightarrow> files (emit_exit (length (procs w)) w') = files w"
  proof -
    assume off: ?off
    then have f: "files w' = files w"
      using launchSpecFromConnectionInfo_files [OF assms] o by simp
    have "on_exit c = []"
      using h o off by simp
    then show ?thesis
      using emit_exit_no_handlers [of "length (procs w)" w'] n l f by simp
  qed
  show ?thesis
    using l n h e a o by auto
qed

theorem cleanupConnectionFile_option_witness:
  "on_exit (procs (snd (launchSpecFromConnectionInfo (Some python3_spec) cfg0 cf0
                     (Some no_cleanup) world_written)) ! 0) = [] \<and>
   files (emit_exit 0 (snd (launchSpecFromConnectionInfo (Some python3_spec) cfg0 cf0
                            (Some no_cleanup) world_written))) cf0 = Some ''[object Object]'' \<and>
   on_exit (procs (snd (launchSpecFromConnectionInfo (Some python3_spec) cfg0 cf0
                     None world_written)) ! 0) = [Cleanup cf0]"
proof -
  have a: "argv python3_spec \<noteq> []"
    by (simp add: python3_spec_def)
  have p: "procs world_written = []"
    by (simp add: scenario_defs)
  have f: "files world_written cf0 = Some ''[object Object]''"
    by (simp add: scenario_defs)
  have s: "cleanupConnectionFile no_cleanup = Present False"
    by (simp add: no_cleanup_def)
  show ?thesis
    using cleanupConnectionFile_option
            [OF surjective_pairing a, of cfg0 cf0 "Some no_cleanup" world_written]
          cleanupConnectionFile_option
            [OF surjective_pairing a, of cfg0 cf0 None world_written]
          p f s
    by simp
qed

subsection \<open>Port probing\<close>

lemma launchSpec_probes:
  "probes (snd (launchSpec kso spawnOptions w)) =
     probes w @ [(5, \<lparr>port = 9000, host = ''127.0.0.1''\<rparr>)]"
proof (cases "writeConnectionFile None w")
  case (Pair r w1)
  have p: "probes w1 = probes w @ [(5, portOptions None)]"
    using writeConnectionFile_probes [of None w] Pair by simp
  show ?thesis
  proof (cases r)
    case (Inl e)
    with Pair p show ?thesis
      by (simp add: launchSpec_def portOptions_def)
  next
    case (Inr b)
    obtain cfg cf where b: "b = (cfg, cf)"
      by (cases b)
    from Pair Inr b p show ?thesis
      by (simp add: launchSpec_def portOptions_def launchSpecFromConnectionInfo_probes)
  qed
qed

lemma launch_in_specs_probes:
  "probes (snd (launch_in_specs kernelName spawnOptions sp w)) =
     (if js_get sp kernelName = Undefined then probes w
      else probes w @ [(5, \<lparr>port = 9000, host = ''127.0.0.1''\<rparr>)])"
  by (simp add: launch_in_specs_def launchSpec_probes split: js_property.splits)

text \<open>
  The ports of a launch are those that this one call returns: when it fails, the launch
  is rejected with its error.
\<close>

lemma launchSpec_getPorts_failure:
  "getPorts w 5 \<lparr>port = 9000, host = ''127.0.0.1''\<rparr> = Inl e \<Longrightarrow>
   fst (launchSpec kso spawnOptions w) = Inl e"
  by (simp add: launchSpec_def writeConnectionFile_def portOptions_def)

text \<open>
  C10: whatever the kernel spec, the kernel name, the spec mapping and the spawn options
  are, a launch through \<open>launchSpec\<close> makes exactly one call to the port finder, for 5
  ports from base port 9000 on host \<^verbatim>\<open>127.0.0.1\<close>. A launch through \<open>launch\<close> takes
  the mapping it is given, or the one that \<^verbatim>\<open>findAll()\<close> resolves to; when reading the
  kernel name in the mapping gives a value (the name is a key of the mapping, or a member
  that every plain object inherits), it makes exactly that same one call; when reading it
  gives \<^verbatim>\<open>undefined\<close>, or \<^verbatim>\<open>findAll()\<close> fails, it is rejected before and makes no
  call.
\<close>

theorem port_probe_defaults:
  "probes (snd (launchSpec kso spawnOptions w)) =
     probes w @ [(5, \<lparr>port = 9000, host = ''127.0.0.1''\<rparr>)] \<and>
   probes (snd (launch kernelName spawnOptions specs w)) =
     (case (case specs of None \<Rightarrow> findAll w | Some sp \<Rightarrow> Inr sp) of
        Inl e \<Rightarrow> probes w
      | Inr sp \<Rightarrow>
          if js_get sp kernelName = Undefined then probes w
          else probes w @ [(5, \<lparr>port = 9000, host = ''127.0.0.1''\<rparr>)])"
  by (simp add: launchSpec_probes launch_def launch_in_specs_probes
      split: option.splits sum.splits)

theorem port_probe_defaults_witness:
  "probes (snd (launchSpec (Some python3_spec) (Some caller_options) world0)) =
     [(5, \<lparr>port = 9000, host = ''127.0.0.1''\<rparr>)] \<and>
   probes (snd (launch ''python3'' (Some caller_options) None world0)) =
     [(5, \<lparr>port = 9000, host = ''127.0.0.1''\<rparr>)] \<and>
   probes (snd (launch ''julia'' None None world0)) = []"
proof -
  have p: "probes world0 = []"
    by (simp add: world0_def)
  have f: "findAll world0 = Inr [''python3'' \<mapsto> \<lparr>name = ''python3'', spec = python3_spec\<rparr>]"
    by (simp add: world0_def)
  have g: "js_get [''python3'' \<mapsto> \<lparr>name = ''python3'', spec = python3_spec\<rparr>] ''python3''
             \<noteq> Undefined"
    "js_get [''python3'' \<mapsto> \<lparr>name = ''python3'', spec = python3_spec\<rparr>] ''julia''
             = Undefined"
    by (simp_all add: js_get_def object_prototype_keys_def)
  show ?thesis
    using port_probe_defaults [of "Some python3_spec" "Some caller_options" world0 "''python3''" None]
      port_probe_defaults [of None None world0 "''julia''" None]
      p f g
    by simp
qed

end
